theory Spec2Isabelle
  imports Complex_Main "HOL-Library.Sublist"
begin

section \<open>Python strings\<close>

text \<open>
  A Python \<open>str\<close> is a \<open>string\<close>. \<open>s.find(m)\<close> is the least index at which
  \<open>m\<close> occurs in \<open>s\<close>, \<open>None\<close> standing for Python's \<open>-1\<close>.
\<close>

fun py_find :: "string \<Rightarrow> string \<Rightarrow> nat option" where
  "py_find [] m = (if m = [] then Some 0 else None)"
| "py_find (c # cs) m =
     (if prefix m (c # cs) then Some 0 else map_option Suc (py_find cs m))"

text \<open>
  The ASCII characters \<open>str.isspace\<close> accepts (tab, line feed, vertical tab, form feed,
  carriage return, the four separators 28 to 31 and the space); \<open>s.strip()\<close> drops them
  at both ends. Whitespace beyond ASCII is not modelled.
\<close>

definition py_isspace :: "char \<Rightarrow> bool" where
  "py_isspace c = ((of_char c :: nat) \<in> {9, 10, 11, 12, 13, 28, 29, 30, 31, 32})"

definition py_strip :: "string \<Rightarrow> string" where
  "py_strip s = rev (dropWhile py_isspace (rev (dropWhile py_isspace s)))"

text \<open>\<open>s.rstrip("/")\<close>.\<close>

definition rstrip_slash :: "string \<Rightarrow> string" where
  "rstrip_slash s = rev (dropWhile (\<lambda>c. c = CHR ''/'') (rev s))"

definition apostrophe :: string where
  "apostrophe = [CHR 0x27]"

section \<open>POSIX paths (\<open>os.path\<close>)\<close>

text \<open>\<open>s.split("/")\<close>: never empty, \<open>"".split("/") = [""]\<close>.\<close>

fun split_slash :: "string \<Rightarrow> string list" where
  "split_slash [] = [[]]"
| "split_slash (c # cs) =
     (if c = CHR ''/'' then [] # split_slash cs
      else (case split_slash cs of [] \<Rightarrow> [[c]] | x # xs \<Rightarrow> (c # x) # xs))"

definition os_path_isabs :: "string \<Rightarrow> bool" where
  "os_path_isabs p = prefix ''/'' p"

text \<open>\<open>os.path.join(a, b)\<close>; the call with more arguments folds it from the left.\<close>

definition os_path_join :: "string \<Rightarrow> string \<Rightarrow> string" where
  "os_path_join a b =
     (if prefix ''/'' b then b
      else if a = [] then b
      else if last a = CHR ''/'' then a @ b
      else a @ ''/'' @ b)"

text \<open>
  The loop body of \<open>posixpath.normpath\<close>: empty and \<open>.\<close> components are skipped, \<open>..\<close>
  removes the component before it, and at the root of a rooted path it is dropped.
\<close>

definition norm_step :: "bool \<Rightarrow> string list \<Rightarrow> string \<Rightarrow> string list" where
  "norm_step rooted new_comps seg =
     (if seg = [] then new_comps
      else if seg = ''.'' then new_comps
      else if seg = ''..'' then
        (if new_comps = [] then (if rooted then [] else [seg])
         else if last new_comps = ''..'' then new_comps @ [seg]
         else butlast new_comps)
      else new_comps @ [seg])"

definition norm_comps :: "bool \<Rightarrow> string \<Rightarrow> string list" where
  "norm_comps rooted p = foldl (norm_step rooted) [] (split_slash p)"

text \<open>
  \<open>posixpath.normpath\<close> keeps exactly two leading slashes apart from one; three or more
  are one.
\<close>

definition initial_slashes :: "string \<Rightarrow> nat" where
  "initial_slashes p =
     (if prefix ''///'' p then 1 else if prefix ''//'' p then 2
      else if prefix ''/'' p then 1 else 0)"

fun join_slash :: "string list \<Rightarrow> string" where
  "join_slash [] = []"
| "join_slash [c] = c"
| "join_slash (c # d # cs) = c @ ''/'' @ join_slash (d # cs)"

definition os_path_normpath :: "string \<Rightarrow> string" where
  "os_path_normpath p =
     (let path = replicate (initial_slashes p) CHR ''/''
                   @ join_slash (norm_comps (0 < initial_slashes p) p)
      in if path = [] then ''.'' else path)"

text \<open>\<open>os.path.abspath(p)\<close>, the working directory \<open>cwd\<close> being \<open>os.getcwd()\<close>.\<close>

definition os_path_abspath :: "string \<Rightarrow> string \<Rightarrow> string" where
  "os_path_abspath cwd p =
     os_path_normpath (if os_path_isabs p then p else os_path_join cwd p)"

text \<open>\<open>os.path.dirname(p)\<close>: up to the last slash, trailing slashes of the head dropped
  unless the head is slashes only.\<close>

definition os_path_dirname :: "string \<Rightarrow> string" where
  "os_path_dirname p =
     (let hd_part = rev (dropWhile (\<lambda>c. \<not> (c = CHR ''/'')) (rev p))
      in if list_all (\<lambda>c. c = CHR ''/'') hd_part then hd_part
         else rstrip_slash hd_part)"

section \<open>The file system\<close>

text \<open>
  A file system maps the components of an absolute, normalised path to what is there.
  The root is the empty list and is always a directory. Paths are resolved lexically,
  as \<open>normpath\<close> does; symbolic links and permissions are not modelled.
\<close>

datatype node = File string | Dir

type_synonym fsys = "string list \<Rightarrow> node option"

definition fs_key :: "string \<Rightarrow> string \<Rightarrow> string list" where
  "fs_key cwd p = norm_comps True (if os_path_isabs p then p else os_path_join cwd p)"

definition is_dir_at :: "fsys \<Rightarrow> string list \<Rightarrow> bool" where
  "is_dir_at f k = (if k = [] then True else f k = Some Dir)"

definition exists_at :: "fsys \<Rightarrow> string list \<Rightarrow> bool" where
  "exists_at f k = (if k = [] then True else \<not> (f k = None))"

definition os_path_exists :: "string \<Rightarrow> fsys \<Rightarrow> string \<Rightarrow> bool" where
  "os_path_exists cwd f p = exists_at f (fs_key cwd p)"

definition os_path_isdir :: "string \<Rightarrow> fsys \<Rightarrow> string \<Rightarrow> bool" where
  "os_path_isdir cwd f p = is_dir_at f (fs_key cwd p)"

text \<open>Python exceptions, as far as the handlers tell them apart.\<close>

datatype exn =
    CalledProcessError "string list" int
  | ProcessError string
  | FileExistsError
  | FileNotFoundError
  | NotADirectoryError
  | IsADirectoryError
  | ShutilError
  | KeyError
  | TypeError
  | AttributeError
  | HTTPError string

text \<open>
  \<open>os.makedirs(p, exist_ok=True)\<close>: every missing directory on the way to \<open>p\<close> is
  created; a file on the way, or at \<open>p\<close>, raises.
\<close>

definition is_file_at :: "fsys \<Rightarrow> string list \<Rightarrow> bool" where
  "is_file_at f k = (case f k of Some (File c) \<Rightarrow> True | _ \<Rightarrow> False)"

definition os_makedirs :: "string \<Rightarrow> string \<Rightarrow> fsys \<Rightarrow> exn + fsys" where
  "os_makedirs cwd p f =
     (let k = fs_key cwd p in
      if is_file_at f k then Inl FileExistsError
      else if list_ex (is_file_at f) (prefixes k) then Inl NotADirectoryError
      else Inr (\<lambda>q. if q = [] then f q
                     else if prefix q k \<and> f q = None then Some Dir else f q))"

text \<open>\<open>with open(p, "w") as h: h.write(c)\<close>.\<close>

definition open_write :: "string \<Rightarrow> string \<Rightarrow> string \<Rightarrow> fsys \<Rightarrow> exn + fsys" where
  "open_write cwd p c f =
     (let k = fs_key cwd p in
      if is_dir_at f k then Inl IsADirectoryError
      else if is_file_at f (butlast k) then Inl NotADirectoryError
      else if is_dir_at f (butlast k) then Inr (f(k \<mapsto> File c))
      else Inl FileNotFoundError)"


text \<open>
  \<open>shutil.rmtree(p)\<close> deletes the directory and everything under it, and raises on a file
  or a missing path; with \<open>ignore_errors=True\<close> those two cases change nothing.
\<close>

definition remove_subtree :: "string list \<Rightarrow> fsys \<Rightarrow> fsys" where
  "remove_subtree k f = (\<lambda>q. if prefix k q then None else f q)"

definition shutil_rmtree :: "string \<Rightarrow> string \<Rightarrow> fsys \<Rightarrow> exn + fsys" where
  "shutil_rmtree cwd p f =
     (let k = fs_key cwd p in
      if is_file_at f k then Inl NotADirectoryError
      else if k = [] then Inl ShutilError
      else if f k = Some Dir then Inr (remove_subtree k f)
      else Inl FileNotFoundError)"

definition shutil_rmtree_ignore_errors :: "string \<Rightarrow> string \<Rightarrow> fsys \<Rightarrow> fsys" where
  "shutil_rmtree_ignore_errors cwd p f =
     (case shutil_rmtree cwd p f of Inl e \<Rightarrow> f | Inr f' \<Rightarrow> f')"

text \<open>
  \<open>shutil.move(src, dst)\<close>: into \<open>dst\<close> under the source's own name when \<open>dst\<close> is a
  directory, onto \<open>dst\<close> otherwise. The destination must not exist, its parent must be a
  directory, and a directory is not moved into itself.
\<close>

definition move_subtree :: "string list \<Rightarrow> string list \<Rightarrow> fsys \<Rightarrow> fsys" where
  "move_subtree ks kd f =
     (\<lambda>q. if prefix kd q then f (ks @ drop (length kd) q)
          else if prefix ks q then None else f q)"

definition shutil_move :: "string \<Rightarrow> string \<Rightarrow> string \<Rightarrow> fsys \<Rightarrow> exn + fsys" where
  "shutil_move cwd src dst f =
     (let ks = fs_key cwd src; kd = fs_key cwd dst;
          real_dst = (if is_dir_at f kd then kd @ [if ks = [] then [] else last ks] else kd)
      in if ks = [] then Inl ShutilError
         else if f ks = None then Inl FileNotFoundError
         else if exists_at f real_dst then Inl ShutilError
         else if prefix ks real_dst then Inl ShutilError
         else if is_dir_at f (butlast real_dst) then Inr (move_subtree ks real_dst f)
         else Inl FileNotFoundError)"

section \<open>The host and the outside world\<close>

text \<open>
  What this plugin takes from the host application and from the operating system, none of
  it code of this repository: the helpers \<open>files.get_abs_path\<close> and \<open>files.exists\<close>,
  the constants of \<open>files\<close> and \<open>plugins\<close>, \<open>plugins.find_plugin_dir\<close>, the working
  directory, and what a child process does. A child process is given its argument vector
  and the file system it starts in; it either completes, with a return code, its standard
  error and the file system it leaves, or \<open>subprocess.run\<close> itself raises (the timeout
  expires, the program is missing).
\<close>

datatype proc = Completed int string fsys | Aborted string fsys

record env =
  cwd :: string
  get_abs_path :: "string list \<Rightarrow> string"
  files_exists :: "fsys \<Rightarrow> string \<Rightarrow> bool"
  USER_DIR :: string
  PLUGINS_DIR :: string
  DISABLED_FILE_NAME :: string
  ENABLED_FILE_NAME :: string
  find_plugin_dir :: "fsys \<Rightarrow> string \<Rightarrow> string option"
  subprocess_run :: "string list \<Rightarrow> fsys \<Rightarrow> proc"

text \<open>
  The state the handlers act on: the file system, and the argument vectors of the child
  processes started so far, oldest first.
\<close>

record world =
  fs :: fsys
  calls :: "string list list"

text \<open>
  \<open>subprocess.run(cmd, capture_output=True, text=True)\<close>, returning the return code and
  the standard error; with \<open>check=True\<close> a return code other than 0 raises.
\<close>

definition run :: "env \<Rightarrow> string list \<Rightarrow> world \<Rightarrow> (exn + int \<times> string) \<times> world" where
  "run e cmd w =
     (case subprocess_run e cmd (fs w) of
        Completed rc err f' \<Rightarrow> (Inr (rc, err), \<lparr>fs = f', calls = calls w @ [cmd]\<rparr>)
      | Aborted msg f' \<Rightarrow> (Inl (ProcessError msg), \<lparr>fs = f', calls = calls w @ [cmd]\<rparr>))"

definition run_check :: "env \<Rightarrow> string list \<Rightarrow> world \<Rightarrow> (exn + unit) \<times> world" where
  "run_check e cmd w =
     (case run e cmd w of
        (Inl x, w') \<Rightarrow> (Inl x, w')
      | (Inr (rc, err), w') \<Rightarrow>
          if rc = 0 then (Inr (), w') else (Inl (CalledProcessError cmd rc), w'))"

section \<open>\<open>helpers/git_ops.py\<close>\<close>

text \<open>
  The dictionaries \<open>{"ok": True}\<close> and \<open>{"ok": False, "error": msg}\<close>. \<open>Failed_exn x\<close> is
  the second with \<open>str(x)\<close> as its message, the text of which is not modelled.
\<close>

datatype reply = Ok | Failed string | Failed_exn exn

definition USR_PLUGINS_DIR :: "env \<Rightarrow> string" where
  "USR_PLUGINS_DIR e = get_abs_path e [''usr'', ''plugins'']"

definition clean_github_url :: "string \<Rightarrow> string" where
  "clean_github_url url =
     (case py_find url ''/tree/'' of
        Some idx \<Rightarrow> take idx url
      | None \<Rightarrow>
          (case py_find url ''/blob/'' of
             Some idx \<Rightarrow> take idx url
           | None \<Rightarrow> url))"

definition has_manifest :: "env \<Rightarrow> fsys \<Rightarrow> string \<Rightarrow> bool" where
  "has_manifest e f target_dir =
     (let has_yaml = os_path_exists (cwd e) f (os_path_join target_dir ''plugin.yaml'');
          has_json = os_path_exists (cwd e) f (os_path_join target_dir ''plugin.json'')
      in if has_yaml then True else has_json)"

definition rmtree_if_exists :: "env \<Rightarrow> string \<Rightarrow> world \<Rightarrow> world" where
  "rmtree_if_exists e p w =
     (if os_path_exists (cwd e) (fs w) p
      then w\<lparr>fs := shutil_rmtree_ignore_errors (cwd e) p (fs w)\<rparr> else w)"

definition full_clone :: "env \<Rightarrow> string \<Rightarrow> string \<Rightarrow> string \<Rightarrow> world \<Rightarrow> (exn + reply) \<times> world" where
  "full_clone e repo_url target_dir branch w =
     (let cmd = [''git'', ''clone'', ''--depth'', ''1'']
                @ (if branch = [] then [] else [''--branch'', branch])
                @ [repo_url, target_dir]
      in case run e cmd w of
           (Inl x, w1) \<Rightarrow> (Inl x, w1)
         | (Inr (rc, err), w1) \<Rightarrow>
             if rc = 0 then
               (let w2 = rmtree_if_exists e (os_path_join target_dir ''.git'') w1
                in if has_manifest e (fs w2) target_dir then (Inr Ok, w2)
                   else (Inr (Failed ''Cloned repo has no plugin.yaml at root.''),
                         w2\<lparr>fs := shutil_rmtree_ignore_errors (cwd e) target_dir (fs w2)\<rparr>))
             else (Inr (Failed (''git clone failed: '' @ py_strip err)), w1))"

definition pull_cmd :: "string \<Rightarrow> string \<Rightarrow> string list" where
  "pull_cmd tmp_dir try_branch =
     [''git'', ''-C'', tmp_dir, ''pull'', ''--depth'', ''1'', ''origin'', try_branch]"

text \<open>
  The loop over \<open>branches_to_try\<close>: \<open>pull_result\<close> is the last pull that completed, and
  the loop leaves at the first return code 0.
\<close>

fun pull_branches ::
  "env \<Rightarrow> string \<Rightarrow> string list \<Rightarrow> (int \<times> string) option \<Rightarrow> world
     \<Rightarrow> (exn + (int \<times> string) option) \<times> world" where
  "pull_branches e tmp_dir [] pull_result w = (Inr pull_result, w)"
| "pull_branches e tmp_dir (try_branch # rest) pull_result w =
     (case run e (pull_cmd tmp_dir try_branch) w of
        (Inl x, w1) \<Rightarrow> (Inl x, w1)
      | (Inr r, w1) \<Rightarrow>
          if fst r = 0 then (Inr (Some r), w1)
          else pull_branches e tmp_dir rest (Some r) w1)"

definition branches_to_try :: "string \<Rightarrow> string list" where
  "branches_to_try branch = (if branch = [] then [''main'', ''master''] else [branch])"

text \<open>
  The part of \<open>_sparse_clone\<close> after the pulls: move the subdirectory, validate.
  \<open>plugin_path.replace("/", os.sep)\<close> is \<open>plugin_path\<close>, the separator being the slash.
\<close>

definition sparse_finish ::
  "env \<Rightarrow> string \<Rightarrow> string \<Rightarrow> string \<Rightarrow> world \<Rightarrow> (exn + reply) \<times> world" where
  "sparse_finish e tmp_dir plugin_path target_dir w =
     (let src = os_path_join tmp_dir plugin_path in
      if os_path_isdir (cwd e) (fs w) src then
        (case shutil_move (cwd e) src target_dir (fs w) of
           Inl x \<Rightarrow> (Inl x, w)
         | Inr f1 \<Rightarrow>
             if has_manifest e f1 target_dir then (Inr Ok, w\<lparr>fs := f1\<rparr>)
             else (Inr (Failed ''Plugin path has no plugin.yaml.''),
                   w\<lparr>fs := shutil_rmtree_ignore_errors (cwd e) target_dir f1\<rparr>))
      else (Inr (Failed (''Path '' @ apostrophe @ plugin_path @ apostrophe
                          @ '' not found in repo.'')), w))"

text \<open>
  The start of the \<open>try\<close> block of \<open>_sparse_clone\<close>: the empty repository, its remote,
  the sparse-checkout switch and the pattern file.
\<close>

definition sparse_setup ::
  "env \<Rightarrow> string \<Rightarrow> string \<Rightarrow> string \<Rightarrow> world \<Rightarrow> (exn + unit) \<times> world" where
  "sparse_setup e repo_url plugin_path tmp_dir w =
     (case run_check e [''git'', ''init'', tmp_dir] w of
        (Inl x, w1) \<Rightarrow> (Inl x, w1)
      | (Inr u1, w1) \<Rightarrow>
     (case run_check e [''git'', ''-C'', tmp_dir, ''remote'', ''add'', ''origin'', repo_url] w1 of
        (Inl x, w2) \<Rightarrow> (Inl x, w2)
      | (Inr u2, w2) \<Rightarrow>
     (case run_check e [''git'', ''-C'', tmp_dir, ''config'', ''core.sparseCheckout'', ''true''] w2 of
        (Inl x, w3) \<Rightarrow> (Inl x, w3)
      | (Inr u3, w3) \<Rightarrow>
     (let sparse_file =
            os_path_join (os_path_join (os_path_join tmp_dir ''.git'') ''info'') ''sparse-checkout''
      in case os_makedirs (cwd e) (os_path_dirname sparse_file) (fs w3) of
        Inl x \<Rightarrow> (Inl x, w3)
      | Inr f4 \<Rightarrow>
     (case open_write (cwd e) sparse_file (rstrip_slash plugin_path @ [CHR ''/'', CHR 0x0A]) f4 of
        Inl x \<Rightarrow> (Inl x, w3\<lparr>fs := f4\<rparr>)
      | Inr f5 \<Rightarrow> (Inr (), w3\<lparr>fs := f5\<rparr>))))))"

text \<open>The \<open>try\<close> block of \<open>_sparse_clone\<close>.\<close>

definition sparse_body ::
  "env \<Rightarrow> string \<Rightarrow> string \<Rightarrow> string \<Rightarrow> string \<Rightarrow> string \<Rightarrow> world
     \<Rightarrow> (exn + reply) \<times> world" where
  "sparse_body e repo_url plugin_path tmp_dir target_dir branch w =
     (case sparse_setup e repo_url plugin_path tmp_dir w of
        (Inl x, w5) \<Rightarrow> (Inl x, w5)
      | (Inr u, w5) \<Rightarrow>
     (case pull_branches e tmp_dir (branches_to_try branch) None w5 of
        (Inl x, w6) \<Rightarrow> (Inl x, w6)
      | (Inr None, w6) \<Rightarrow> (Inr (Failed ''git pull failed: No branches to try''), w6)
      | (Inr (Some (rc, err)), w6) \<Rightarrow>
          if rc = 0 then sparse_finish e tmp_dir plugin_path target_dir w6
          else (Inr (Failed (''git pull failed: '' @ py_strip err)), w6)))"

text \<open>\<open>_sparse_clone\<close>: the \<open>finally\<close> clause removes the staging directory on every path.\<close>

definition sparse_clone ::
  "env \<Rightarrow> string \<Rightarrow> string \<Rightarrow> string \<Rightarrow> string \<Rightarrow> string \<Rightarrow> world
     \<Rightarrow> (exn + reply) \<times> world" where
  "sparse_clone e repo_url plugin_path plugin_id target_dir branch w =
     (let tmp_dir = target_dir @ ''_tmp_clone'' in
      case sparse_body e repo_url plugin_path tmp_dir target_dir branch w of
        (r, w') \<Rightarrow> (r, rmtree_if_exists e tmp_dir w'))"

definition already_installed :: "string \<Rightarrow> string" where
  "already_installed plugin_id =
     ''Plugin '' @ apostrophe @ plugin_id @ apostrophe @ '' is already installed.''"

definition clone_plugin ::
  "env \<Rightarrow> string \<Rightarrow> string \<Rightarrow> string \<Rightarrow> string \<Rightarrow> world \<Rightarrow> (exn + reply) \<times> world" where
  "clone_plugin e repo_url plugin_path plugin_id branch w =
     (let target_dir = os_path_join (USR_PLUGINS_DIR e) plugin_id in
      if os_path_exists (cwd e) (fs w) target_dir
      then (Inr (Failed (already_installed plugin_id)), w)
      else
        (case os_makedirs (cwd e) (USR_PLUGINS_DIR e) (fs w) of
           Inl x \<Rightarrow> (Inl x, w)
         | Inr f1 \<Rightarrow>
             (let repo_url' = clean_github_url repo_url;
                  w1 = w\<lparr>fs := f1\<rparr>;
                  attempt =
                    (if plugin_path = [] then full_clone e repo_url' target_dir branch w1
                     else if plugin_path = ''.'' then full_clone e repo_url' target_dir branch w1
                     else sparse_clone e repo_url' plugin_path plugin_id target_dir branch w1)
              in case attempt of
                   (Inr r, w2) \<Rightarrow> (Inr r, w2)
                 | (Inl x, w2) \<Rightarrow> (Inr (Failed_exn x), rmtree_if_exists e target_dir w2))))"

definition not_installed :: "string \<Rightarrow> string" where
  "not_installed plugin_id =
     ''Plugin '' @ apostrophe @ plugin_id @ apostrophe @ '' is not installed in usr/plugins/.''"

definition remove_plugin :: "env \<Rightarrow> string \<Rightarrow> world \<Rightarrow> reply \<times> world" where
  "remove_plugin e plugin_id w =
     (let target_dir = os_path_join (USR_PLUGINS_DIR e) plugin_id;
          builtin_dir = get_abs_path e [''plugins'', plugin_id]
      in if os_path_abspath (cwd e) target_dir = os_path_abspath (cwd e) builtin_dir
         then (Failed ''Cannot uninstall built-in plugins.'', w)
         else if os_path_exists (cwd e) (fs w) target_dir then
           (case shutil_rmtree (cwd e) target_dir (fs w) of
              Inr f1 \<Rightarrow> (Ok, w\<lparr>fs := f1\<rparr>)
            | Inl x \<Rightarrow> (Failed_exn x, w))
         else (Failed (not_installed plugin_id), w))"

section \<open>\<open>api/marketplace_toggle.py\<close>\<close>






section \<open>\<open>api/marketplace_registry.py\<close>\<close>

text \<open>
  What \<open>resp.json()\<close> returns: \<open>None\<close>, a truth value, a number, a string, a list, or a
  dictionary with string keys, here a list of pairs with the keys distinct.
\<close>

datatype json =
    JNull | JBool bool | JInt int | JFloat real | JStr string
  | JArr "json list" | JObj "(string \<times> json) list"

text \<open>\<open>d.get(key, default)\<close>: only a dictionary has the method.\<close>

definition py_get :: "json \<Rightarrow> string \<Rightarrow> json \<Rightarrow> exn + json" where
  "py_get d k dflt =
     (case d of
        JObj kvs \<Rightarrow> (case map_of kvs k of Some v \<Rightarrow> Inr v | None \<Rightarrow> Inr dflt)
      | _ \<Rightarrow> Inl AttributeError)"

text \<open>\<open>d[key]\<close> for a string \<open>key\<close>: a dictionary answers or raises \<open>KeyError\<close>, lists and
  strings want integer indices, the rest is not subscriptable.\<close>

definition py_subscript :: "json \<Rightarrow> string \<Rightarrow> exn + json" where
  "py_subscript d k =
     (case d of
        JObj kvs \<Rightarrow> (case map_of kvs k of Some v \<Rightarrow> Inr v | None \<Rightarrow> Inl KeyError)
      | _ \<Rightarrow> Inl TypeError)"

text \<open>\<open>for x in v\<close>: the elements of a list, the characters of a string, the keys of a
  dictionary; nothing else can be iterated.\<close>

definition py_iter :: "json \<Rightarrow> exn + json list" where
  "py_iter v =
     (case v of
        JArr xs \<Rightarrow> Inr xs
      | JStr s \<Rightarrow> Inr (map (\<lambda>c. JStr [c]) s)
      | JObj kvs \<Rightarrow> Inr (map (\<lambda>kv. JStr (fst kv)) kvs)
      | _ \<Rightarrow> Inl TypeError)"

text \<open>Lists and dictionaries cannot be members of a set.\<close>

definition hashable :: "json \<Rightarrow> bool" where
  "hashable v = (case v of JArr xs \<Rightarrow> False | JObj kvs \<Rightarrow> False | _ \<Rightarrow> True)"

definition truthy :: "json \<Rightarrow> bool" where
  "truthy v =
     (case v of
        JNull \<Rightarrow> False | JBool b \<Rightarrow> b | JInt i \<Rightarrow> \<not> (i = 0) | JFloat r \<Rightarrow> \<not> (r = 0)
      | JStr s \<Rightarrow> \<not> (s = []) | JArr xs \<Rightarrow> \<not> (xs = []) | JObj kvs \<Rightarrow> \<not> (kvs = []))"

text \<open>
  An item of \<open>plugins.get_enhanced_plugins_list\<close>, with the attributes the handler reads.
  Such an object is true in a condition.
\<close>

record local_plugin =
  name :: string
  display_name :: json
  description :: json
  version :: json
  is_custom :: bool
  has_config_screen :: bool

type_synonym row = "(string \<times> json) list"

definition REGISTRY_URL :: string where
  "REGISTRY_URL = ''https://raw.githubusercontent.com/TerminallyLazy/a0-marketplace/main/registry.json''"

definition STATS_URL :: string where
  "STATS_URL = ''https://a0-marketplace-web.vercel.app/api/stats''"

definition CACHE_TTL :: real where
  "CACHE_TTL = 300"

text \<open>
  \<open>files.exists(files.get_abs_path(USER_DIR, PLUGINS_DIR, pid, DISABLED_FILE_NAME))\<close>, and
  the status of a plugin that is present locally.
\<close>

definition is_disabled :: "env \<Rightarrow> fsys \<Rightarrow> string \<Rightarrow> bool" where
  "is_disabled e f pid =
     files_exists e f (get_abs_path e [USER_DIR e, PLUGINS_DIR e, pid, DISABLED_FILE_NAME e])"

definition local_status :: "env \<Rightarrow> fsys \<Rightarrow> string \<Rightarrow> string" where
  "local_status e f pid = (if is_disabled e f pid then ''inactive'' else ''active'')"

text \<open>\<open>local_by_name = {p.name: p for p in local_plugins}\<close>: a later item replaces an
  earlier one of the same name.\<close>

definition local_by_name :: "local_plugin list \<Rightarrow> string \<Rightarrow> local_plugin option" where
  "local_by_name local_plugins = map_of (rev (map (\<lambda>p. (name p, p)) local_plugins))"

text \<open>\<open>local_by_name.get(pid)\<close>: only a string is the name of a plugin.\<close>

definition find_local :: "local_plugin list \<Rightarrow> json \<Rightarrow> local_plugin option" where
  "find_local local_plugins pid =
     (case pid of JStr s \<Rightarrow> local_by_name local_plugins s | _ \<Rightarrow> None)"

text \<open>\<open>stats.get(pid, 0)\<close>.\<close>

definition install_count :: "json \<Rightarrow> json \<Rightarrow> exn + json" where
  "install_count stats pid =
     (case stats of
        JObj kvs \<Rightarrow>
          (case pid of
             JStr s \<Rightarrow> (case map_of kvs s of Some v \<Rightarrow> Inr v | None \<Rightarrow> Inr (JInt 0))
           | _ \<Rightarrow> Inr (JInt 0))
      | _ \<Rightarrow> Inl AttributeError)"

text \<open>\<open>rp.get(key, default)\<close> for an entry \<open>rp\<close> of which \<open>rp["id"]\<close> has returned, a
  dictionary therefore.\<close>

definition rp_get :: "json \<Rightarrow> string \<Rightarrow> json \<Rightarrow> json" where
  "rp_get rp k dflt =
     (case rp of
        JObj kvs \<Rightarrow> (case map_of kvs k of Some v \<Rightarrow> v | None \<Rightarrow> dflt)
      | _ \<Rightarrow> dflt)"

definition catalog_status :: "env \<Rightarrow> fsys \<Rightarrow> local_plugin list \<Rightarrow> json \<Rightarrow> string" where
  "catalog_status e f local_plugins pid =
     (case pid of
        JStr s \<Rightarrow>
          (case local_by_name local_plugins s of
             Some l \<Rightarrow> local_status e f s
           | None \<Rightarrow> ''available'')
      | _ \<Rightarrow> ''available'')"

text \<open>The dictionary appended for a catalog entry; \<open>stats.get\<close> is the one call in it
  that can raise.\<close>

definition catalog_row ::
  "env \<Rightarrow> fsys \<Rightarrow> json \<Rightarrow> local_plugin list \<Rightarrow> json \<Rightarrow> json \<Rightarrow> exn + row" where
  "catalog_row e f stats local_plugins rp pid =
     (let local = find_local local_plugins pid in
      case install_count stats pid of
        Inl x \<Rightarrow> Inl x
      | Inr n \<Rightarrow>
          Inr [(''id'', pid),
               (''name'', rp_get rp ''name'' pid),
               (''description'', rp_get rp ''description'' (JStr [])),
               (''author'', rp_get rp ''author'' (JStr [])),
               (''version'', rp_get rp ''version'' (JStr [])),
               (''icon'', rp_get rp ''icon'' (JStr ''extension'')),
               (''tags'', rp_get rp ''tags'' (JArr [])),
               (''featured'', rp_get rp ''featured'' (JBool False)),
               (''install_count'', n),
               (''status'', JStr (catalog_status e f local_plugins pid)),
               (''is_builtin'',
                  JBool (case local of Some l \<Rightarrow> \<not> is_custom l | None \<Rightarrow> False)),
               (''has_config'',
                  JBool (case local of Some l \<Rightarrow> has_config_screen l | None \<Rightarrow> False)),
               (''repo_url'', rp_get rp ''repo_url'' (JStr [])),
               (''branch'', rp_get rp ''branch'' (JStr [])),
               (''plugin_path'', rp_get rp ''plugin_path'' (JStr ''.''))])"

text \<open>The first loop, over the catalog: \<open>merged\<close> and \<open>seen_ids\<close> grow together.\<close>

fun registry_loop ::
  "env \<Rightarrow> fsys \<Rightarrow> json \<Rightarrow> local_plugin list \<Rightarrow> json list \<Rightarrow> row list \<Rightarrow> json list
     \<Rightarrow> exn + row list \<times> json list" where
  "registry_loop e f stats local_plugins [] merged seen_ids = Inr (merged, seen_ids)"
| "registry_loop e f stats local_plugins (rp # rps) merged seen_ids =
     (case py_subscript rp ''id'' of
        Inl x \<Rightarrow> Inl x
      | Inr pid \<Rightarrow>
          if hashable pid then
            (case catalog_row e f stats local_plugins rp pid of
               Inl x \<Rightarrow> Inl x
             | Inr r \<Rightarrow>
                 registry_loop e f stats local_plugins rps (merged @ [r]) (seen_ids @ [pid]))
          else Inl TypeError)"

text \<open>The dictionary appended for a plugin that is only local.\<close>

definition local_row :: "env \<Rightarrow> fsys \<Rightarrow> local_plugin \<Rightarrow> row" where
  "local_row e f lp =
     [(''id'', JStr (name lp)),
      (''name'', if truthy (display_name lp) then display_name lp else JStr (name lp)),
      (''description'', description lp),
      (''author'', JStr []),
      (''version'', version lp),
      (''icon'', JStr ''extension''),
      (''tags'', JArr []),
      (''featured'', JBool False),
      (''install_count'', JInt 0),
      (''status'', JStr (local_status e f (name lp))),
      (''is_builtin'', JBool (\<not> is_custom lp)),
      (''has_config'', JBool (has_config_screen lp)),
      (''repo_url'', JStr []),
      (''plugin_path'', JStr [])]"

text \<open>The second loop, over the local plugins.\<close>

fun local_loop ::
  "env \<Rightarrow> fsys \<Rightarrow> json list \<Rightarrow> local_plugin list \<Rightarrow> row list \<Rightarrow> row list" where
  "local_loop e f seen_ids [] merged = merged"
| "local_loop e f seen_ids (lp # lps) merged =
     local_loop e f seen_ids lps
       (if JStr (name lp) \<in> set seen_ids then merged else merged @ [local_row e f lp])"

text \<open>From \<open>registry = _cache["data"]\<close> to the list \<open>merged\<close>.\<close>

definition merged_view ::
  "env \<Rightarrow> fsys \<Rightarrow> json \<Rightarrow> json \<Rightarrow> local_plugin list \<Rightarrow> exn + row list" where
  "merged_view e f registry stats local_plugins =
     (case py_get registry ''plugins'' (JArr []) of
        Inl x \<Rightarrow> Inl x
      | Inr registry_plugins \<Rightarrow>
          (case py_iter registry_plugins of
             Inl x \<Rightarrow> Inl x
           | Inr rps \<Rightarrow>
               (case registry_loop e f stats local_plugins rps [] [] of
                  Inl x \<Rightarrow> Inl x
                | Inr (merged, seen_ids) \<Rightarrow>
                    Inr (local_loop e f seen_ids local_plugins merged))))"

text \<open>
  The module's \<open>_cache\<close>; \<open>JNull\<close> is its \<open>None\<close>. Times are the seconds of \<open>time.time()\<close>,
  taken as real numbers.
\<close>

record cache =
  data :: json
  ts :: real
  stats :: json
  stats_ts :: real

definition initial_cache :: cache where
  "initial_cache = \<lparr>data = JNull, ts = 0, stats = JObj [], stats_ts = 0\<rparr>"

text \<open>
  What the network answers during one call. For the registry: the decoded document, or
  the exception raised by the request, by \<open>raise_for_status\<close> or by the decoding. For
  the statistics: the status code and the decoded body if there is one, or an exception.
\<close>

datatype http = Http_raised | Http_response int "json option"

text \<open>
  The first \<open>if\<close> of the handler. \<open>Inl x\<close> is the exception with which the handler gives
  up; the list holds the addresses requested.
\<close>

definition fetch_registry :: "real \<Rightarrow> exn + json \<Rightarrow> cache \<Rightarrow> (exn + cache) \<times> string list" where
  "fetch_registry now answer c =
     (if data c = JNull \<or> CACHE_TTL < now - ts c then
        (case answer of
           Inr doc \<Rightarrow> (Inr (c\<lparr>data := doc, ts := now\<rparr>), [REGISTRY_URL])
         | Inl x \<Rightarrow>
             if data c = JNull then (Inl x, [REGISTRY_URL]) else (Inr c, [REGISTRY_URL]))
      else (Inr c, []))"

text \<open>The second \<open>if\<close>, \<open>STATS_URL\<close> being a string that is not empty: every
  failure leaves the cache as it is.\<close>

definition fetch_stats :: "real \<Rightarrow> http \<Rightarrow> cache \<Rightarrow> cache \<times> string list" where
  "fetch_stats now answer c =
     (if CACHE_TTL < now - stats_ts c then
        (case answer of
           Http_raised \<Rightarrow> (c, [STATS_URL])
         | Http_response code body \<Rightarrow>
             if code = 200 then
               (case body of
                  None \<Rightarrow> (c, [STATS_URL])
                | Some doc \<Rightarrow>
                    (case py_get doc ''counts'' (JObj []) of
                       Inl x \<Rightarrow> (c, [STATS_URL])
                     | Inr counts \<Rightarrow> (c\<lparr>stats := counts, stats_ts := now\<rparr>, [STATS_URL])))
             else (c, [STATS_URL]))
      else (c, []))"

text \<open>
  \<open>{"ok": True, "plugins": merged}\<close>, or \<open>{"ok": False, "error": msg}\<close> with
  \<open>"Failed to fetch registry: "\<close> and \<open>str(x)\<close> as \<open>msg\<close>.
\<close>

datatype registry_response = Registry_ok "row list" | Registry_failed exn

text \<open>
  \<open>MarketplaceRegistry.process\<close>: the reply or the exception raised, the cache as the
  call leaves it, and the addresses requested.
\<close>

definition registry_process ::
  "env \<Rightarrow> real \<Rightarrow> exn + json \<Rightarrow> http \<Rightarrow> local_plugin list \<Rightarrow> fsys \<Rightarrow> cache
     \<Rightarrow> (exn + registry_response) \<times> cache \<times> string list" where
  "registry_process e now registry_answer stats_answer local_plugins f c =
     (case fetch_registry now registry_answer c of
        (Inl x, reqs) \<Rightarrow> (Inr (Registry_failed x), c, reqs)
      | (Inr c1, reqs) \<Rightarrow>
          (case fetch_stats now stats_answer c1 of
             (c2, reqs2) \<Rightarrow>
               (case merged_view e f (data c2) (stats c2) local_plugins of
                  Inl x \<Rightarrow> (Inl x, c2, reqs @ reqs2)
                | Inr merged \<Rightarrow> (Inr (Registry_ok merged), c2, reqs @ reqs2))))"

section \<open>Names used in the statements\<close>




text \<open>What a row holds under a key, if anything.\<close>

definition field :: "row \<Rightarrow> string \<Rightarrow> json option" where
  "field r k = map_of r k"

section \<open>A host for the examples\<close>

text \<open>
  A host rooted at \<open>/a0\<close>, whose path helper joins its arguments onto the root and whose
  existence helper asks the file system; the markers are \<open>.toggle-0\<close> and \<open>.toggle-1\<close>.
  A plugin is found under \<open>usr/plugins\<close> or under \<open>plugins\<close>. The examples supply what
  the child processes do.
\<close>

definition demo_find_plugin_dir :: "fsys \<Rightarrow> string \<Rightarrow> string option" where
  "demo_find_plugin_dir f pid =
     (if os_path_isdir ''/a0'' f (foldl os_path_join ''/a0'' [''usr'', ''plugins'', pid])
      then Some (foldl os_path_join ''/a0'' [''usr'', ''plugins'', pid])
      else if os_path_isdir ''/a0'' f (foldl os_path_join ''/a0'' [''plugins'', pid])
      then Some (foldl os_path_join ''/a0'' [''plugins'', pid])
      else None)"

definition demo_env :: "(string list \<Rightarrow> fsys \<Rightarrow> proc) \<Rightarrow> env" where
  "demo_env git =
     \<lparr>cwd = ''/a0'',
      get_abs_path = foldl os_path_join ''/a0'',
      files_exists = (\<lambda>f p. os_path_exists ''/a0'' f (os_path_join ''/a0'' p)),
      USER_DIR = ''usr'',
      PLUGINS_DIR = ''plugins'',
      DISABLED_FILE_NAME = ''.toggle-0'',
      ENABLED_FILE_NAME = ''.toggle-1'',
      find_plugin_dir = demo_find_plugin_dir,
      subprocess_run = git\<rparr>"

text \<open>No child process is expected: whatever is started fails and changes nothing.\<close>

definition no_git :: "string list \<Rightarrow> fsys \<Rightarrow> proc" where
  "no_git cmd f = Aborted ''git: command not found'' f"

text \<open>A list of directories and files as a file system.\<close>

definition fs_of :: "(string list \<times> node) list \<Rightarrow> fsys" where
  "fs_of entries = map_of entries"

definition base_fs :: fsys where
  "base_fs = fs_of [([''a0''], Dir), ([''a0'', ''usr''], Dir), ([''a0'', ''plugins''], Dir),
                    ([''a0'', ''usr'', ''plugins''], Dir)]"

text \<open>
  \<open>git clone\<close> that creates the target directory (the last argument) with a file in it
  and then fails at the checkout, with return code 128.
\<close>

definition checkout_fails :: "string list \<Rightarrow> fsys \<Rightarrow> proc" where
  "checkout_fails cmd f =
     (let k = fs_key ''/a0'' (last cmd)
      in Completed 128 ''fatal: unable to checkout working tree''
           (f(k \<mapsto> Dir, k @ [''README.md''] \<mapsto> File [])))"



text \<open>
  A catalog document whose entries carry an identifier and nothing else, and a local
  plugin with a name and nothing else of interest.
\<close>

definition catalog_of :: "string list \<Rightarrow> json" where
  "catalog_of ids = JObj [(''plugins'', JArr (map (\<lambda>i. JObj [(''id'', JStr i)]) ids))]"

definition plain_plugin :: "string \<Rightarrow> local_plugin" where
  "plain_plugin n =
     \<lparr>name = n, display_name = JNull, description = JStr [], version = JStr ''1.0'',
      is_custom = True, has_config_screen = False\<rparr>"

text \<open>
  Two plugins under \<open>usr/plugins\<close>: \<open>b\<close> with the disabled marker, \<open>c\<close> with the
  enabled marker.
\<close>

definition marked_fs :: fsys where
  "marked_fs = fs_of [([''a0''], Dir), ([''a0'', ''usr''], Dir), ([''a0'', ''plugins''], Dir),
                    ([''a0'', ''usr'', ''plugins''], Dir),
                    ([''a0'', ''usr'', ''plugins'', ''b''], Dir),
                    ([''a0'', ''usr'', ''plugins'', ''b'', ''.toggle-0''], File []),
                    ([''a0'', ''usr'', ''plugins'', ''c''], Dir),
                    ([''a0'', ''usr'', ''plugins'', ''c'', ''.toggle-1''], File [])]"

section \<open>Properties of \<open>helpers/git_ops.py\<close>\<close>

subsection \<open>An identifier that is installed already\<close>

text \<open>
  C5. When the target directory \<open>usr/plugins/<plugin_id>\<close> exists, \<open>clone_plugin\<close> returns
  the already-installed error and leaves the world as it found it: the file system is the
  same and no child process has been started.
\<close>

theorem clone_plugin_already_installed:
  assumes "os_path_exists (cwd e) (fs w) (os_path_join (USR_PLUGINS_DIR e) plugin_id)"
  shows "clone_plugin e repo_url plugin_path plugin_id branch w
           = (Inr (Failed (already_installed plugin_id)), w)"
  using assms by (simp add: clone_plugin_def)

theorem clone_plugin_already_installed_witness:
  "os_path_exists ''/a0'' (base_fs([''a0'', ''usr'', ''plugins'', ''memory''] \<mapsto> Dir))
      ''/a0/usr/plugins/memory''
   \<and> clone_plugin (demo_env no_git) ''https://example.org/r.git'' ''.'' ''memory'' ''main''
        \<lparr>fs = base_fs([''a0'', ''usr'', ''plugins'', ''memory''] \<mapsto> Dir), calls = []\<rparr>
       = (Inr (Failed (''Plugin '' @ [CHR 0x27] @ ''memory'' @ [CHR 0x27] @ '' is already installed.'')),
          \<lparr>fs = base_fs([''a0'', ''usr'', ''plugins'', ''memory''] \<mapsto> Dir), calls = []\<rparr>)"
proof -
  have p: "os_path_join (USR_PLUGINS_DIR (demo_env no_git)) ''memory'' = ''/a0/usr/plugins/memory''"
    by (simp add: USR_PLUGINS_DIR_def demo_env_def os_path_join_def)
  have h: "os_path_exists ''/a0'' (base_fs([''a0'', ''usr'', ''plugins'', ''memory''] \<mapsto> Dir))
             ''/a0/usr/plugins/memory''"
    by code_simp
  have c: "cwd (demo_env no_git) = ''/a0''"
    by (simp add: demo_env_def)
  show ?thesis
    using h clone_plugin_already_installed
      [of "demo_env no_git"
          "\<lparr>fs = base_fs([''a0'', ''usr'', ''plugins'', ''memory''] \<mapsto> Dir), calls = []\<rparr>"
          "''memory''" "''https://example.org/r.git''" "''.''" "''main''"]
    by (simp add: p c already_installed_def apostrophe_def)
qed

subsection \<open>The built-in location is protected\<close>

text \<open>
  C6. When the target of the removal, \<open>usr/plugins/<plugin_id>\<close>, and the path reserved
  for the built-in plugin of that identifier are the same absolute path, \<open>remove_plugin\<close>
  answers that built-in plugins cannot be uninstalled and deletes nothing.
\<close>

theorem remove_plugin_protected:
  assumes "os_path_abspath (cwd e) (os_path_join (USR_PLUGINS_DIR e) plugin_id)
             = os_path_abspath (cwd e) (get_abs_path e [''plugins'', plugin_id])"
  shows "remove_plugin e plugin_id w = (Failed ''Cannot uninstall built-in plugins.'', w)"
  using assms by (simp add: remove_plugin_def)

theorem remove_plugin_protected_witness:
  "os_path_abspath ''/a0'' (os_path_join ''/a0/usr/plugins'' ''/a0/plugins/memory'')
     = os_path_abspath ''/a0'' (os_path_join ''/a0/plugins'' ''/a0/plugins/memory'')
   \<and> remove_plugin (demo_env no_git) ''/a0/plugins/memory''
        \<lparr>fs = base_fs([''a0'', ''plugins'', ''memory''] \<mapsto> Dir), calls = []\<rparr>
       = (Failed ''Cannot uninstall built-in plugins.'',
          \<lparr>fs = base_fs([''a0'', ''plugins'', ''memory''] \<mapsto> Dir), calls = []\<rparr>)"
proof -
  have t: "os_path_join (USR_PLUGINS_DIR (demo_env no_git)) ''/a0/plugins/memory''
             = os_path_join ''/a0/usr/plugins'' ''/a0/plugins/memory''"
    by (simp add: USR_PLUGINS_DIR_def demo_env_def os_path_join_def)
  have b: "get_abs_path (demo_env no_git) [''plugins'', ''/a0/plugins/memory'']
             = os_path_join ''/a0/plugins'' ''/a0/plugins/memory''"
    by (simp add: demo_env_def os_path_join_def)
  have c: "cwd (demo_env no_git) = ''/a0''"
    by (simp add: demo_env_def)
  have h: "os_path_abspath ''/a0'' (os_path_join ''/a0/usr/plugins'' ''/a0/plugins/memory'')
             = os_path_abspath ''/a0'' (os_path_join ''/a0/plugins'' ''/a0/plugins/memory'')"
    by (simp add: os_path_join_def)
  show ?thesis
    using h remove_plugin_protected
      [of "demo_env no_git" "''/a0/plugins/memory''"
          "\<lparr>fs = base_fs([''a0'', ''plugins'', ''memory''] \<mapsto> Dir), calls = []\<rparr>"]
    by (simp add: t b c)
qed

subsection \<open>Which branches the sparse strategy pulls\<close>










subsection \<open>Web addresses with both markers\<close>

text \<open>
  C8. The address of a file whose path has a directory \<open>tree\<close>, as the web interface
  shows it under \<open>/blob/\<close>: the first marker in the address is \<open>/blob/\<close>, at index 22, and
  the address cut there is the repository's. \<open>_clean_github_url\<close> looks for \<open>/tree/\<close>
  first and cuts at index 37, which leaves the \<open>/blob/\<close> part in place.
\<close>

theorem clean_github_url_blob_before_tree:
  "py_find ''https://github.com/u/r/blob/main/docs/tree/a.md'' ''/blob/'' = Some 22
   \<and> py_find ''https://github.com/u/r/blob/main/docs/tree/a.md'' ''/tree/'' = Some 37
   \<and> take 22 ''https://github.com/u/r/blob/main/docs/tree/a.md'' = ''https://github.com/u/r''
   \<and> clean_github_url ''https://github.com/u/r/blob/main/docs/tree/a.md''
       = ''https://github.com/u/r/blob/main/docs''"
  by code_simp

subsection \<open>A clone that fails after creating the directory\<close>

text \<open>
  C1. \<open>git clone\<close> creates the target directory and then fails at the checkout with
  return code 128. The target did not exist before the call; \<open>clone_plugin\<close> returns the
  clone failure, and the target directory exists afterwards: the branch of \<open>_full_clone\<close>
  for a return code other than 0 returns without removing it.
\<close>

theorem clone_plugin_leaves_failed_clone:
  "\<not> os_path_exists ''/a0'' base_fs ''/a0/usr/plugins/memory''
   \<and> os_path_join (USR_PLUGINS_DIR (demo_env checkout_fails)) ''memory'' = ''/a0/usr/plugins/memory''
   \<and> fst (clone_plugin (demo_env checkout_fails) ''https://example.org/r.git'' ''.'' ''memory'' []
            \<lparr>fs = base_fs, calls = []\<rparr>)
       = Inr (Failed ''git clone failed: fatal: unable to checkout working tree'')
   \<and> os_path_exists ''/a0''
         (fs (snd (clone_plugin (demo_env checkout_fails) ''https://example.org/r.git'' ''.''
                     ''memory'' [] \<lparr>fs = base_fs, calls = []\<rparr>)))
         ''/a0/usr/plugins/memory''"
  by code_simp

section \<open>Properties of \<open>api/marketplace_registry.py\<close>\<close>

subsection \<open>The shape of the merged list\<close>

lemma local_by_name_None_iff: "(local_by_name lps s = None) = (s \<notin> name ` set lps)"
  by (simp add: local_by_name_def map_of_eq_None_iff image_image)

lemma field_catalog_row:
  assumes "catalog_row e f st lps rp pid = Inr r"
  shows "field r ''id'' = Some pid"
    and "field r ''status'' = Some (JStr (catalog_status e f lps pid))"
  using assms
  by (auto simp: catalog_row_def field_def Let_def split: sum.splits)

lemma field_local_row:
  "field (local_row e f lp) ''id'' = Some (JStr (name lp))"
  "field (local_row e f lp) ''status'' = Some (JStr (local_status e f (name lp)))"
  "field (local_row e f lp) ''install_count'' = Some (JInt 0)"
  "field (local_row e f lp) ''repo_url'' = Some (JStr [])"
  "field (local_row e f lp) ''plugin_path'' = Some (JStr [])"
  "field (local_row e f lp) ''branch'' = None"
  by (simp_all add: local_row_def field_def)

lemma registry_loop_rows:
  assumes "registry_loop e f st lps rps m0 s0 = Inr (m, s)"
  shows "\<exists>rows ids. m = m0 @ rows \<and> s = s0 @ ids
           \<and> list_all2 (\<lambda>rp pid. py_subscript rp ''id'' = Inr pid) rps ids
           \<and> list_all2 (\<lambda>r pid. field r ''id'' = Some pid
                  \<and> field r ''status'' = Some (JStr (catalog_status e f lps pid))) rows ids"
  using assms
proof (induction rps arbitrary: m0 s0)
  case Nil
  then show ?case by simp
next
  case (Cons rp rps)
  from Cons.prems obtain pid r where
    pid: "py_subscript rp ''id'' = Inr pid" and
    r: "catalog_row e f st lps rp pid = Inr r" and
    rest: "registry_loop e f st lps rps (m0 @ [r]) (s0 @ [pid]) = Inr (m, s)"
    by (auto split: sum.splits if_splits)
  from Cons.IH [OF rest] obtain rows ids where
    1: "m = (m0 @ [r]) @ rows" "s = (s0 @ [pid]) @ ids"
      "list_all2 (\<lambda>rp pid. py_subscript rp ''id'' = Inr pid) rps ids"
      "list_all2 (\<lambda>r pid. field r ''id'' = Some pid
                  \<and> field r ''status'' = Some (JStr (catalog_status e f lps pid))) rows ids"
    by blast
  show ?case
  proof (intro exI conjI)
    show "m = m0 @ (r # rows)" using 1 by simp
    show "s = s0 @ (pid # ids)" using 1 by simp
    show "list_all2 (\<lambda>rp pid. py_subscript rp ''id'' = Inr pid) (rp # rps) (pid # ids)"
      using 1 pid by simp
    show "list_all2 (\<lambda>r pid. field r ''id'' = Some pid
                  \<and> field r ''status'' = Some (JStr (catalog_status e f lps pid)))
            (r # rows) (pid # ids)"
      using 1 field_catalog_row [OF r] by simp
  qed
qed

lemma local_loop_eq:
  "local_loop e f seen lps m0
     = m0 @ map (local_row e f) (filter (\<lambda>lp. JStr (name lp) \<notin> set seen) lps)"
  by (induction lps arbitrary: m0) auto

lemma merged_view_shape:
  assumes "merged_view e f registry st lps = Inr merged"
  shows "\<exists>plugins rps rows ids.
           py_get registry ''plugins'' (JArr []) = Inr plugins
           \<and> py_iter plugins = Inr rps
           \<and> list_all2 (\<lambda>rp pid. py_subscript rp ''id'' = Inr pid) rps ids
           \<and> list_all2 (\<lambda>r pid. field r ''id'' = Some pid
                  \<and> field r ''status'' = Some (JStr (catalog_status e f lps pid))) rows ids
           \<and> merged = rows @ map (local_row e f)
                                 (filter (\<lambda>lp. JStr (name lp) \<notin> set ids) lps)"
proof -
  from assms obtain plugins rps m s where
    p: "py_get registry ''plugins'' (JArr []) = Inr plugins" and
    i: "py_iter plugins = Inr rps" and
    l: "registry_loop e f st lps rps [] [] = Inr (m, s)" and
    m: "merged = local_loop e f s lps m"
    by (auto simp: merged_view_def split: sum.splits prod.splits)
  from registry_loop_rows [OF l] obtain rows ids where
    "m = rows" "s = ids"
    "list_all2 (\<lambda>rp pid. py_subscript rp ''id'' = Inr pid) rps ids"
    "list_all2 (\<lambda>r pid. field r ''id'' = Some pid
                  \<and> field r ''status'' = Some (JStr (catalog_status e f lps pid))) rows ids"
    by auto
  then show ?thesis
    using p i m by (auto simp: local_loop_eq)
qed


subsection \<open>One row for each identifier\<close>

lemma registry_process_ok:
  assumes "registry_process e now ra sa lps f c = (Inr (Registry_ok merged), c', reqs)"
  shows "merged_view e f (data c') (stats c') lps = Inr merged"
  using assms
  by (auto simp: registry_process_def split: sum.splits prod.splits)

lemma list_all2_functional:
  assumes "list_all2 (\<lambda>a b. g a = Inr b) xs ys" "list_all2 (\<lambda>a b. g a = Inr b) xs zs"
  shows "ys = zs"
  using assms
proof (induction xs arbitrary: ys zs)
  case Nil
  then show ?case by simp
next
  case (Cons x xs)
  then show ?case by (auto simp: list_all2_Cons1)
qed

lemma list_all2_map_field:
  assumes "list_all2 (\<lambda>r pid. field r k = Some pid \<and> Q r pid) rows ids"
  shows "map (\<lambda>r. field r k) rows = map Some ids"
  using assms by (induction rule: list_all2_induct) auto

lemma merged_ids:
  assumes "merged_view e f registry st lps = Inr merged"
      and "py_get registry ''plugins'' (JArr []) = Inr (JArr rps)"
      and "list_all2 (\<lambda>rp pid. py_subscript rp ''id'' = Inr pid) rps ids"
  shows "map (\<lambda>r. field r ''id'') merged
           = map Some (ids @ map (\<lambda>lp. JStr (name lp))
                                 (filter (\<lambda>lp. JStr (name lp) \<notin> set ids) lps))"
proof -
  from merged_view_shape [OF assms(1)] obtain plugins rps' rows ids' where
    s: "py_get registry ''plugins'' (JArr []) = Inr plugins" "py_iter plugins = Inr rps'"
       "list_all2 (\<lambda>rp pid. py_subscript rp ''id'' = Inr pid) rps' ids'"
       "list_all2 (\<lambda>r pid. field r ''id'' = Some pid
                  \<and> field r ''status'' = Some (JStr (catalog_status e f lps pid))) rows ids'"
       "merged = rows @ map (local_row e f) (filter (\<lambda>lp. JStr (name lp) \<notin> set ids') lps)"
    by blast
  have "rps' = rps" using s(1,2) assms(2) by (auto simp: py_iter_def)
  then have i: "ids' = ids"
    using list_all2_functional [of "\<lambda>rp. py_subscript rp ''id''" rps ids' ids] s(3) assms(3)
    by simp
  show ?thesis
    using s(5) list_all2_map_field [OF s(4)] i
    by (simp add: field_local_row comp_def)
qed

text \<open>
  C2, amended. Let the handler return the merged list, let the catalog served be a list
  whose entries have the identifiers \<open>ids\<close>, pairwise distinct, and let the names of the
  local plugins be pairwise distinct. Then the identifiers of the rows are those of the
  catalog in catalog order, followed by the names of the local plugins that are not in the
  catalog, in the order of the local list; no identifier occurs twice, and the identifiers
  are those of the catalog together with those of the local plugins.
\<close>

theorem one_row_per_identifier:
  assumes "registry_process e now ra sa lps f c = (Inr (Registry_ok merged), c', reqs)"
      and "py_get (data c') ''plugins'' (JArr []) = Inr (JArr rps)"
      and "list_all2 (\<lambda>rp pid. py_subscript rp ''id'' = Inr pid) rps ids"
      and "distinct ids"
      and "distinct (map name lps)"
  shows "map (\<lambda>r. field r ''id'') merged
           = map Some (ids @ map (\<lambda>lp. JStr (name lp))
                                 (filter (\<lambda>lp. JStr (name lp) \<notin> set ids) lps))
         \<and> distinct (map (\<lambda>r. field r ''id'') merged)
         \<and> set (map (\<lambda>r. field r ''id'') merged)
             = Some ` (set ids \<union> (\<lambda>lp. JStr (name lp)) ` set lps)"
proof -
  have m: "map (\<lambda>r. field r ''id'') merged
           = map Some (ids @ map (\<lambda>lp. JStr (name lp))
                                 (filter (\<lambda>lp. JStr (name lp) \<notin> set ids) lps))"
    using merged_ids [OF registry_process_ok [OF assms(1)] assms(2,3)] .
  have inj: "inj_on (\<lambda>lp. JStr (name lp)) (set lps)"
    using assms(5) by (auto simp: inj_on_def distinct_map)
  have d1: "distinct (map (\<lambda>lp. JStr (name lp)) (filter (\<lambda>lp. JStr (name lp) \<notin> set ids) lps))"
    using assms(5) inj by (auto simp: distinct_map intro: inj_on_subset)
  have d: "distinct (ids @ map (\<lambda>lp. JStr (name lp))
                                 (filter (\<lambda>lp. JStr (name lp) \<notin> set ids) lps))"
    using assms(4) d1 by auto
  have s: "set (ids @ map (\<lambda>lp. JStr (name lp)) (filter (\<lambda>lp. JStr (name lp) \<notin> set ids) lps))
             = set ids \<union> (\<lambda>lp. JStr (name lp)) ` set lps"
    by auto
  show ?thesis
    unfolding m using d s by (simp add: distinct_map del: map_append set_append)
qed


theorem one_row_per_identifier_witness:
  "\<exists>merged c' reqs.
     registry_process (demo_env no_git) 1000 (Inr (catalog_of [''a'', ''b''])) Http_raised
       [plain_plugin ''b'', plain_plugin ''c''] base_fs initial_cache
       = (Inr (Registry_ok merged), c', reqs)
     \<and> py_get (data c') ''plugins'' (JArr [])
         = Inr (JArr [JObj [(''id'', JStr ''a'')], JObj [(''id'', JStr ''b'')]])
     \<and> distinct [JStr ''a'', JStr ''b'']
     \<and> distinct (map name [plain_plugin ''b'', plain_plugin ''c''])
     \<and> map (\<lambda>r. field r ''id'') merged = [Some (JStr ''a''), Some (JStr ''b''), Some (JStr ''c'')]
     \<and> distinct (map (\<lambda>r. field r ''id'') merged)"
proof -
  define X where "X = registry_process (demo_env no_git) 1000 (Inr (catalog_of [''a'', ''b'']))
       Http_raised [plain_plugin ''b'', plain_plugin ''c''] base_fs initial_cache"
  have "case X of (Inr (Registry_ok m), c', rq) \<Rightarrow> True | _ \<Rightarrow> False"
    unfolding X_def by code_simp
  then obtain merged c' reqs where h: "X = (Inr (Registry_ok merged), c', reqs)"
    by (auto split: prod.splits sum.splits registry_response.splits)
  have "py_get (data (fst (snd X))) ''plugins'' (JArr [])
         = Inr (JArr [JObj [(''id'', JStr ''a'')], JObj [(''id'', JStr ''b'')]])"
    unfolding X_def by code_simp
  then have g: "py_get (data c') ''plugins'' (JArr [])
         = Inr (JArr [JObj [(''id'', JStr ''a'')], JObj [(''id'', JStr ''b'')]])"
    using h by simp
  have i: "list_all2 (\<lambda>rp pid. py_subscript rp ''id'' = Inr pid)
             [JObj [(''id'', JStr ''a'')], JObj [(''id'', JStr ''b'')]] [JStr ''a'', JStr ''b'']"
    by (simp add: py_subscript_def)
  have d1: "distinct [JStr ''a'', JStr ''b'']" by simp
  have d2: "distinct (map name [plain_plugin ''b'', plain_plugin ''c''])"
    by (simp add: plain_plugin_def)
  show ?thesis
    using one_row_per_identifier [OF h [unfolded X_def] g i d1 d2] h [unfolded X_def] g d1 d2
    by (simp add: plain_plugin_def)
qed

text \<open>
  C2 as stated fails: a catalog that lists the identifier \<open>a\<close> twice gives two rows with
  that identifier.
\<close>

theorem duplicate_catalog_identifier:
  "\<exists>merged c' reqs.
     registry_process (demo_env no_git) 1000 (Inr (catalog_of [''a'', ''a''])) Http_raised
       [] base_fs initial_cache
       = (Inr (Registry_ok merged), c', reqs)
     \<and> map (\<lambda>r. field r ''id'') merged = [Some (JStr ''a''), Some (JStr ''a'')]"
proof -
  define X where "X = registry_process (demo_env no_git) 1000 (Inr (catalog_of [''a'', ''a'']))
       Http_raised [] base_fs initial_cache"
  have "case X of (Inr (Registry_ok m), c', rq) \<Rightarrow>
           map (\<lambda>r. field r ''id'') m = [Some (JStr ''a''), Some (JStr ''a'')] | _ \<Rightarrow> False"
    unfolding X_def by code_simp
  then show ?thesis
    unfolding X_def [symmetric]
    by (auto split: prod.splits sum.splits registry_response.splits)
qed

text \<open>
  C9. With \<open>a\<close> in the catalog and \<open>c\<close> only local, the row of \<open>a\<close> has the key
  \<open>branch\<close>, with the empty string; the row of \<open>c\<close> has install count 0, an empty
  source address and an empty path, and no key \<open>branch\<close> at all.
\<close>

theorem local_only_row_has_no_branch:
  "case fst (registry_process (demo_env no_git) 1000 (Inr (catalog_of [''a''])) Http_raised
               [plain_plugin ''c''] base_fs initial_cache) of
     Inr (Registry_ok [ra, rc]) \<Rightarrow>
       field ra ''id'' = Some (JStr ''a'') \<and> field ra ''branch'' = Some (JStr [])
       \<and> field rc ''id'' = Some (JStr ''c'') \<and> field rc ''branch'' = None
       \<and> field rc ''repo_url'' = Some (JStr []) \<and> field rc ''plugin_path'' = Some (JStr [])
       \<and> field rc ''install_count'' = Some (JInt 0)
   | _ \<Rightarrow> False"
  by code_simp

subsection \<open>The status of a local plugin\<close>

lemma catalog_status_local:
  assumes "s \<in> name ` set lps"
  shows "catalog_status e f lps (JStr s) = local_status e f s"
  using assms local_by_name_None_iff [of lps s]
  by (auto simp: catalog_status_def split: option.splits)

lemma merged_status:
  assumes "merged_view e f registry st lps = Inr merged"
      and "r \<in> set merged" "field r ''id'' = Some (JStr s)" "s \<in> name ` set lps"
  shows "field r ''status'' = Some (JStr (local_status e f s))"
proof -
  from merged_view_shape [OF assms(1)] obtain rows ids where
    a: "list_all2 (\<lambda>r pid. field r ''id'' = Some pid
                  \<and> field r ''status'' = Some (JStr (catalog_status e f lps pid))) rows ids"
    and m: "merged = rows @ map (local_row e f) (filter (\<lambda>lp. JStr (name lp) \<notin> set ids) lps)"
    by blast
  from assms(2) m consider "r \<in> set rows" | lp where "lp \<in> set lps" "r = local_row e f lp"
    by auto
  then show ?thesis
  proof cases
    case 1
    then obtain pid where p: "field r ''id'' = Some pid"
      "field r ''status'' = Some (JStr (catalog_status e f lps pid))"
      using a by (auto simp: list_all2_conv_all_nth in_set_conv_nth)
    from p(1) assms(3) have "pid = JStr s" by simp
    with p(2) show ?thesis
      by (simp add: catalog_status_local [OF assms(4)])
  next
    case 2
    then show ?thesis
      using assms(3) by (simp add: field_local_row)
  qed
qed


lemma catalog_status_cong:
  assumes "\<forall>lp\<in>set lps. is_disabled e f' (name lp) = is_disabled e f (name lp)"
  shows "catalog_status e f' lps pid = catalog_status e f lps pid"
proof (cases pid)
  case (JStr s)
  show ?thesis
  proof (cases "local_by_name lps s")
    case None
    then show ?thesis by (simp add: catalog_status_def JStr)
  next
    case (Some l)
    then have "s \<in> name ` set lps"
      using local_by_name_None_iff [of lps s] by auto
    then show ?thesis
      using assms Some by (auto simp: catalog_status_def JStr local_status_def)
  qed
qed (simp_all add: catalog_status_def)

lemma catalog_row_cong:
  assumes "\<forall>lp\<in>set lps. is_disabled e f' (name lp) = is_disabled e f (name lp)"
  shows "catalog_row e f' st lps rp pid = catalog_row e f st lps rp pid"
  by (simp only: catalog_row_def catalog_status_cong [OF assms])

lemma registry_loop_cong:
  assumes "\<forall>lp\<in>set lps. is_disabled e f' (name lp) = is_disabled e f (name lp)"
  shows "registry_loop e f' st lps rps m s = registry_loop e f st lps rps m s"
proof (induction rps arbitrary: m s)
  case Nil
  show ?case by simp
next
  case (Cons rp rps)
  show ?case
  proof (cases "py_subscript rp ''id''")
    case (Inl x)
    then show ?thesis by simp
  next
    case (Inr pid)
    show ?thesis
    proof (cases "catalog_row e f st lps rp pid")
      case (Inl x)
      then show ?thesis
        using Inr catalog_row_cong [OF assms, of st rp pid] by simp
    next
      case r: (Inr row)
      then show ?thesis
        using Inr catalog_row_cong [OF assms, of st rp pid]
          Cons.IH [of "m @ [row]" "s @ [pid]"] by simp
    qed
  qed
qed

lemma local_row_cong:
  assumes "is_disabled e f' (name lp) = is_disabled e f (name lp)"
  shows "local_row e f' lp = local_row e f lp"
  using assms by (simp add: local_row_def local_status_def)

lemma local_loop_cong:
  assumes "\<forall>lp\<in>set lps. is_disabled e f' (name lp) = is_disabled e f (name lp)"
  shows "local_loop e f' seen lps m = local_loop e f seen lps m"
proof -
  have "map (local_row e f') (filter (\<lambda>lp. JStr (name lp) \<notin> set seen) lps)
          = map (local_row e f) (filter (\<lambda>lp. JStr (name lp) \<notin> set seen) lps)"
  proof (rule map_cong)
    fix lp
    assume "lp \<in> set (filter (\<lambda>lp. JStr (name lp) \<notin> set seen) lps)"
    then have "is_disabled e f' (name lp) = is_disabled e f (name lp)"
      using assms by simp
    then show "local_row e f' lp = local_row e f lp"
      by (rule local_row_cong)
  qed simp
  then show ?thesis by (simp add: local_loop_eq)
qed

lemma merged_view_cong:
  assumes "\<forall>lp\<in>set lps. is_disabled e f' (name lp) = is_disabled e f (name lp)"
  shows "merged_view e f' reg st lps = merged_view e f reg st lps"
  by (simp only: merged_view_def registry_loop_cong [OF assms] local_loop_cong [OF assms])

text \<open>
  C10. In the merged list, a row whose identifier is the name of a local plugin has the
  status \<open>inactive\<close> if \<open>files.exists\<close> finds the disabled marker of that plugin, and
  \<open>active\<close> otherwise. Nothing else of the file system is read: on a file system that
  answers the same for the disabled markers of the local plugins, the handler returns
  the same, whatever else differs, the enabled markers included.
\<close>

theorem status_from_disabled_marker:
  assumes "registry_process e now ra sa lps f c = (Inr (Registry_ok merged), c', reqs)"
  shows "(\<forall>r\<in>set merged. \<forall>s. field r ''id'' = Some (JStr s) \<and> s \<in> name ` set lps \<longrightarrow>
            field r ''status''
              = Some (JStr (if files_exists e f
                                 (get_abs_path e [USER_DIR e, PLUGINS_DIR e, s, DISABLED_FILE_NAME e])
                            then ''inactive'' else ''active'')))
       \<and> (\<forall>f'. (\<forall>lp\<in>set lps.
                   files_exists e f'
                     (get_abs_path e [USER_DIR e, PLUGINS_DIR e, name lp, DISABLED_FILE_NAME e])
                   = files_exists e f
                       (get_abs_path e [USER_DIR e, PLUGINS_DIR e, name lp, DISABLED_FILE_NAME e])) \<longrightarrow>
                registry_process e now ra sa lps f' c = registry_process e now ra sa lps f c)"
proof (intro conjI ballI allI impI)
  fix r s
  assume "r \<in> set merged" "field r ''id'' = Some (JStr s) \<and> s \<in> name ` set lps"
  then show "field r ''status''
              = Some (JStr (if files_exists e f
                                 (get_abs_path e [USER_DIR e, PLUGINS_DIR e, s, DISABLED_FILE_NAME e])
                            then ''inactive'' else ''active''))"
    using merged_status [OF registry_process_ok [OF assms], of r s]
    by (simp add: local_status_def is_disabled_def)
next
  fix f'
  assume "\<forall>lp\<in>set lps.
                   files_exists e f'
                     (get_abs_path e [USER_DIR e, PLUGINS_DIR e, name lp, DISABLED_FILE_NAME e])
                   = files_exists e f
                       (get_abs_path e [USER_DIR e, PLUGINS_DIR e, name lp, DISABLED_FILE_NAME e])"
  then have "\<forall>lp\<in>set lps. is_disabled e f' (name lp) = is_disabled e f (name lp)"
    by (simp add: is_disabled_def)
  from merged_view_cong [OF this]
  show "registry_process e now ra sa lps f' c = registry_process e now ra sa lps f c"
    by (simp only: registry_process_def)
qed

theorem status_from_disabled_marker_witness:
  "\<exists>r1 r2 c' reqs.
     registry_process (demo_env no_git) 1000 (Inr (catalog_of [''b''])) Http_raised
       [plain_plugin ''b'', plain_plugin ''c''] marked_fs initial_cache
       = (Inr (Registry_ok [r1, r2]), c', reqs)
     \<and> field r1 ''id'' = Some (JStr ''b'') \<and> field r1 ''status'' = Some (JStr ''inactive'')
     \<and> field r2 ''id'' = Some (JStr ''c'') \<and> field r2 ''status'' = Some (JStr ''active'')
     \<and> registry_process (demo_env no_git) 1000 (Inr (catalog_of [''b''])) Http_raised
           [plain_plugin ''b'', plain_plugin ''c'']
           (marked_fs([''a0'', ''usr'', ''plugins'', ''c'', ''.toggle-1''] := None)) initial_cache
         = (Inr (Registry_ok [r1, r2]), c', reqs)"
proof -
  define E where "E = demo_env no_git"
  define L where "L = [plain_plugin ''b'', plain_plugin ''c'']"
  define X where "X = registry_process E 1000 (Inr (catalog_of [''b''])) Http_raised
       L marked_fs initial_cache"
  have "case X of (Inr (Registry_ok [r1, r2]), c', rq) \<Rightarrow>
          field r1 ''id'' = Some (JStr ''b'') \<and> field r2 ''id'' = Some (JStr ''c'') | _ \<Rightarrow> False"
    unfolding X_def E_def L_def by code_simp
  then obtain r1 r2 c' reqs where h: "X = (Inr (Registry_ok [r1, r2]), c', reqs)"
    and i: "field r1 ''id'' = Some (JStr ''b'')" "field r2 ''id'' = Some (JStr ''c'')"
    by (auto split: prod.splits sum.splits registry_response.splits list.splits)
  note T = status_from_disabled_marker [OF h [unfolded X_def]]
  have n: "name ` set L = {''b'', ''c''}"
    by (auto simp: L_def plain_plugin_def)
  have b: "files_exists E marked_fs
             (get_abs_path E [USER_DIR E, PLUGINS_DIR E, ''b'', DISABLED_FILE_NAME E])"
    unfolding E_def by code_simp
  have c: "\<not> files_exists E marked_fs
             (get_abs_path E [USER_DIR E, PLUGINS_DIR E, ''c'', DISABLED_FILE_NAME E])"
    unfolding E_def by code_simp
  have b': "files_exists E (marked_fs([''a0'', ''usr'', ''plugins'', ''c'', ''.toggle-1''] := None))
             (get_abs_path E [USER_DIR E, PLUGINS_DIR E, ''b'', DISABLED_FILE_NAME E])"
    unfolding E_def by code_simp
  have c': "\<not> files_exists E (marked_fs([''a0'', ''usr'', ''plugins'', ''c'', ''.toggle-1''] := None))
             (get_abs_path E [USER_DIR E, PLUGINS_DIR E, ''c'', DISABLED_FILE_NAME E])"
    unfolding E_def by code_simp
  have s1: "field r1 ''status'' = Some (JStr ''inactive'')"
    using T [THEN conjunct1, rule_format, of r1 "''b''"] i n b by simp
  have s2: "field r2 ''status'' = Some (JStr ''active'')"
    using T [THEN conjunct1, rule_format, of r2 "''c''"] i n c by simp
  have hyp: "\<forall>lp\<in>set L.
      files_exists E (marked_fs([''a0'', ''usr'', ''plugins'', ''c'', ''.toggle-1''] := None))
        (get_abs_path E [USER_DIR E, PLUGINS_DIR E, name lp, DISABLED_FILE_NAME E])
      = files_exists E marked_fs
          (get_abs_path E [USER_DIR E, PLUGINS_DIR E, name lp, DISABLED_FILE_NAME E])"
    using b c b' c' by (simp add: L_def plain_plugin_def)
  have "registry_process E 1000 (Inr (catalog_of [''b''])) Http_raised L
           (marked_fs([''a0'', ''usr'', ''plugins'', ''c'', ''.toggle-1''] := None)) initial_cache = X"
    unfolding X_def
    using T [THEN conjunct2, THEN spec, THEN mp, OF hyp] .
  then show ?thesis
    using h i s1 s2 unfolding X_def E_def L_def by auto
qed

section \<open>Properties of \<open>api/marketplace_toggle.py\<close>\<close>

subsection \<open>Joining a file name onto a directory\<close>











subsection \<open>The markers after a toggle\<close>







section \<open>The cache of the registry\<close>

lemma fetch_stats_keeps:
  assumes "fetch_stats now sa c = (c2, reqs2)"
  shows "data c2 = data c" "ts c2 = ts c" "REGISTRY_URL \<notin> set reqs2"
  using assms
  by (auto simp: fetch_stats_def REGISTRY_URL_def STATS_URL_def
      split: if_splits http.splits option.splits sum.splits)

lemma registry_process_fresh:
  assumes "\<not> (data c = JNull \<or> CACHE_TTL < now - ts c)"
      and "registry_process e now ra sa lps f c = (r, c', reqs)"
  shows "REGISTRY_URL \<notin> set reqs" "\<forall>x. r \<noteq> Inr (Registry_failed x)"
proof -
  obtain c2 reqs2 where s: "fetch_stats now sa c = (c2, reqs2)" by force
  show "REGISTRY_URL \<notin> set reqs" "\<forall>x. r \<noteq> Inr (Registry_failed x)"
    using assms s fetch_stats_keeps(3) [OF s]
    by (auto simp: registry_process_def fetch_registry_def split: sum.splits)
qed

lemma registry_process_fetched:
  assumes "data c = JNull \<or> CACHE_TTL < now - ts c"
      and "registry_process e now (Inr doc) sa lps f c = (r, c', reqs)"
  shows "REGISTRY_URL \<in> set reqs" "data c' = doc" "ts c' = now"
    "\<forall>x. r \<noteq> Inr (Registry_failed x)"
proof -
  obtain c2 reqs2 where s: "fetch_stats now sa (c\<lparr>data := doc, ts := now\<rparr>) = (c2, reqs2)"
    by force
  show "REGISTRY_URL \<in> set reqs" "data c' = doc" "ts c' = now"
    "\<forall>x. r \<noteq> Inr (Registry_failed x)"
    using assms s fetch_stats_keeps(1,2) [OF s]
    by (auto simp: registry_process_def fetch_registry_def split: sum.splits)
qed

lemma registry_process_first_failure:
  assumes "data c = JNull"
      and "registry_process e now (Inl x) sa lps f c = (r, c', reqs)"
  shows "REGISTRY_URL \<in> set reqs" "r = Inr (Registry_failed x)" "c' = c"
  using assms by (auto simp: registry_process_def fetch_registry_def)

lemma registry_process_stale:
  assumes "data c \<noteq> JNull" "CACHE_TTL < now - ts c"
      and "registry_process e now (Inl x) sa lps f c = (r, c', reqs)"
  shows "REGISTRY_URL \<in> set reqs" "data c' = data c" "ts c' = ts c"
    "r = (case merged_view e f (data c) (stats c') lps of
            Inl y \<Rightarrow> Inl y | Inr m \<Rightarrow> Inr (Registry_ok m))"
    "\<forall>y. r \<noteq> Inr (Registry_failed y)"
proof -
  obtain c2 reqs2 where s: "fetch_stats now sa c = (c2, reqs2)" by force
  show "REGISTRY_URL \<in> set reqs" "data c' = data c" "ts c' = ts c"
    "r = (case merged_view e f (data c) (stats c') lps of
            Inl y \<Rightarrow> Inl y | Inr m \<Rightarrow> Inr (Registry_ok m))"
    "\<forall>y. r \<noteq> Inr (Registry_failed y)"
    using assms s fetch_stats_keeps(1,2) [OF s]
    by (auto simp: registry_process_def fetch_registry_def split: sum.splits)
qed

text \<open>
  C3. The address of the registry is requested exactly when the cache holds no catalog
  or its catalog is older than \<open>CACHE_TTL\<close>, 300 seconds. When it is requested and the
  fetch succeeds, the cache holds the fetched document and the time of the call. When it
  is requested and the fetch fails: with no catalog in the cache the handler returns the
  fetch error and the cache stays as it was; with a catalog in the cache, catalog and
  timestamp stay as they were and the reply is the one built from that catalog. The
  handler returns the fetch error in no other case than the one named.
\<close>

theorem registry_cache_policy:
  assumes "registry_process e now ra sa lps f c = (r, c', reqs)"
  shows "(REGISTRY_URL \<in> set reqs) = (data c = JNull \<or> CACHE_TTL < now - ts c)
       \<and> (\<forall>doc. (data c = JNull \<or> CACHE_TTL < now - ts c) \<and> ra = Inr doc \<longrightarrow>
             data c' = doc \<and> ts c' = now)
       \<and> (\<forall>x. (data c = JNull \<or> CACHE_TTL < now - ts c) \<and> ra = Inl x \<longrightarrow>
             (if data c = JNull then r = Inr (Registry_failed x) \<and> c' = c
              else data c' = data c \<and> ts c' = ts c
                   \<and> r = (case merged_view e f (data c) (stats c') lps of
                             Inl y \<Rightarrow> Inl y | Inr m \<Rightarrow> Inr (Registry_ok m))))
       \<and> ((\<exists>x. r = Inr (Registry_failed x)) = (data c = JNull \<and> (\<exists>x. ra = Inl x)))"
proof (cases "data c = JNull \<or> CACHE_TTL < now - ts c")
  case False
  then show ?thesis
    using registry_process_fresh [OF False assms] by auto
next
  case stale: True
  show ?thesis
  proof (cases ra)
    case (Inr doc)
    then show ?thesis
      using stale registry_process_fetched [OF stale assms [unfolded Inr]] by auto
  next
    case (Inl x)
    show ?thesis
    proof (cases "data c = JNull")
      case True
      then show ?thesis
        using Inl registry_process_first_failure [OF True assms [unfolded Inl]] by auto
    next
      case False
      then have old: "CACHE_TTL < now - ts c" using stale by simp
      show ?thesis
        using Inl False old registry_process_stale [OF False old assms [unfolded Inl]]
        by auto
    qed
  qed
qed


theorem registry_cache_policy_witness:
  "\<exists>r c' reqs m.
     registry_process (demo_env no_git) 2000 (Inl (HTTPError ''timed out'')) Http_raised []
       base_fs \<lparr>data = catalog_of [''a''], ts = 1000, stats = JObj [], stats_ts = 1000\<rparr>
       = (r, c', reqs)
     \<and> CACHE_TTL < 2000 - 1000
     \<and> REGISTRY_URL \<in> set reqs
     \<and> data c' = catalog_of [''a''] \<and> ts c' = 1000
     \<and> r = Inr (Registry_ok m) \<and> map (\<lambda>r. field r ''id'') m = [Some (JStr ''a'')]"
proof -
  define C where "C = \<lparr>data = catalog_of [''a''], ts = 1000, stats = JObj [], stats_ts = 1000\<rparr>"
  define X where "X = registry_process (demo_env no_git) 2000 (Inl (HTTPError ''timed out''))
       Http_raised [] base_fs C"
  obtain r c' reqs where h: "X = (r, c', reqs)"
    by (cases X) auto
  note T = registry_cache_policy [OF h [unfolded X_def]]
  have old: "CACHE_TTL < 2000 - ts C"
    by (simp add: CACHE_TTL_def C_def)
  have prior: "data C \<noteq> JNull"
    by (simp add: C_def catalog_of_def)
  have 1: "REGISTRY_URL \<in> set reqs"
    using T [THEN conjunct1] old by simp
  have 2: "data c' = data C \<and> ts c' = ts C"
    using T [THEN conjunct2, THEN conjunct2, THEN conjunct1, rule_format,
        of "HTTPError ''timed out''"] old prior
    by simp
  have "case fst X of Inr (Registry_ok m) \<Rightarrow> map (\<lambda>r. field r ''id'') m = [Some (JStr ''a'')]
        | _ \<Rightarrow> False"
    unfolding X_def C_def by code_simp
  then obtain m where 3: "r = Inr (Registry_ok m)" "map (\<lambda>r. field r ''id'') m = [Some (JStr ''a'')]"
    using h by (auto split: sum.splits registry_response.splits)
  show ?thesis
    using h 1 2 3 old unfolding X_def C_def by auto
qed

end
